theory Spec2Isabelle
  imports Complex_Main
begin

section \<open>Errors\<close>

text \<open>
  The package reports failures as Go \<^verbatim>\<open>error\<close> values. Two causes are its own
  (\<^verbatim>\<open>invalidConfigError\<close>, \<^verbatim>\<open>notFoundError\<close>); the others reach it from the storage
  collection and from \<^verbatim>\<open>encoding/json\<close>. A storage error is either the one recognised by
  \<^verbatim>\<open>storageerror.IsNotFound\<close> or any other failure.
\<close>

datatype storage_error = StorageNotFound | StorageFailure string

datatype cause = invalidConfigError | notFoundError

datatype error =
    Masked cause string
  | Storage storage_error
  | JSONError string

definition storageerror_IsNotFound :: "storage_error \<Rightarrow> bool" where
  "storageerror_IsNotFound err = (err = StorageNotFound)"

text \<open>
  Modelled from the spec: the helpers \<^verbatim>\<open>maskAny\<close>, \<^verbatim>\<open>maskAnyf\<close> and \<^verbatim>\<open>IsNotFound\<close> of the
  package's error file, which is not among the sources. Section 7 of the specification:
  an error that is passed on is wrapped with context and unchanged in meaning; a
  \<^verbatim>\<open>NotFound\<close> error carries the key and an \<^verbatim>\<open>InvalidConfiguration\<close> error names the
  missing field. \<^verbatim>\<open>IsNotFound\<close> recognises the package's own not-found cause only.
\<close>

definition maskAny :: "error \<Rightarrow> error" where
  "maskAny err = err"

definition maskAnyf :: "cause \<Rightarrow> string \<Rightarrow> error" where
  "maskAnyf c f = Masked c f"

definition IsNotFound :: "error \<Rightarrow> bool" where
  "IsNotFound err = (case err of Masked c f \<Rightarrow> c = notFoundError | _ \<Rightarrow> False)"

section \<open>The connection entity\<close>

text \<open>
  An instant of \<^verbatim>\<open>time.Time\<close>: seconds since January 1 of year 1, and nanoseconds within
  the second. \<^verbatim>\<open>IsZero\<close> holds of the instant with both parts zero.
\<close>

record time =
  sec :: int
  nsec :: nat

definition IsZero :: "time \<Rightarrow> bool" where
  "IsZero t = (sec t = 0 \<and> nsec t = 0)"

text \<open>
  \<^verbatim>\<open>float64\<close> weights are only copied and compared with zero, so they are kept as reals.
\<close>

record Config =
  Created :: time
  ID :: string
  PeerAID :: string
  PeerBID :: string
  Weight :: real

record connection =
  created :: time
  id' :: string
  peerAID :: string
  peerBID :: string
  weight :: real

text \<open>\<^verbatim>\<open>DefaultConfig\<close> reads the clock; the reading is the argument \<open>now\<close>.\<close>

definition DefaultConfig :: "time \<Rightarrow> Config" where
  "DefaultConfig now =
     \<lparr>Created = now, ID = '''', PeerAID = '''', PeerBID = '''', Weight = 0\<rparr>"

definition New :: "Config \<Rightarrow> error + connection" where
  "New config =
     (if IsZero (Created config) then
        Inl (maskAnyf invalidConfigError ''created must not be empty'')
      else if ID config = '''' then
        Inl (maskAnyf invalidConfigError ''ID must not be empty'')
      else if PeerAID config = '''' then
        Inl (maskAnyf invalidConfigError ''peerA ID must not be empty'')
      else if PeerBID config = '''' then
        Inl (maskAnyf invalidConfigError ''peerB ID must not be empty'')
      else
        Inr \<lparr>created = Created config, id' = ID config, peerAID = PeerAID config,
             peerBID = PeerBID config, weight = Weight config\<rparr>)"

section \<open>Encoding and decoding\<close>

text \<open>
  \<^verbatim>\<open>MarshalJSON\<close> and \<^verbatim>\<open>UnmarshalJSON\<close> hand a clone of the struct to \<^verbatim>\<open>encoding/json\<close>,
  which works by reflection over the struct's fields and sees the exported ones only:
  those whose name starts with an upper-case letter. A JSON object is kept as the list
  of its members, each value tagged with the Go type it stands for; the bytes are the
  library's rendering of that object.
\<close>

datatype gvalue = VTime time | VString string | VFloat real

type_synonym json_object = "(string \<times> gvalue) list"

definition IsExported :: "string \<Rightarrow> bool" where
  "IsExported name =
     (case name of [] \<Rightarrow> False | c # _ \<Rightarrow> c \<in> set ''ABCDEFGHIJKLMNOPQRSTUVWXYZ'')"

text \<open>
  A field as reflection presents it: its name as declared, how to read it, and how to
  store a decoded value in it (\<open>None\<close> when the value has another type).
\<close>

type_synonym field =
  "string \<times> (connection \<Rightarrow> gvalue) \<times> (gvalue \<Rightarrow> connection \<Rightarrow> connection option)"

definition connection_fields :: "field list" where
  "connection_fields =
     [(''created'', (\<lambda>c. VTime (created c)),
         (\<lambda>v c. case v of VTime t \<Rightarrow> Some (c\<lparr>created := t\<rparr>) | _ \<Rightarrow> None)),
      (''id'', (\<lambda>c. VString (id' c)),
         (\<lambda>v c. case v of VString s \<Rightarrow> Some (c\<lparr>id' := s\<rparr>) | _ \<Rightarrow> None)),
      (''peerAID'', (\<lambda>c. VString (peerAID c)),
         (\<lambda>v c. case v of VString s \<Rightarrow> Some (c\<lparr>peerAID := s\<rparr>) | _ \<Rightarrow> None)),
      (''peerBID'', (\<lambda>c. VString (peerBID c)),
         (\<lambda>v c. case v of VString s \<Rightarrow> Some (c\<lparr>peerBID := s\<rparr>) | _ \<Rightarrow> None)),
      (''weight'', (\<lambda>c. VFloat (weight c)),
         (\<lambda>v c. case v of VFloat w \<Rightarrow> Some (c\<lparr>weight := w\<rparr>) | _ \<Rightarrow> None))]"

definition exported_fields :: "field list \<Rightarrow> field list" where
  "exported_fields fs = filter (\<lambda>(name, rd, wr). IsExported name) fs"

definition json_Marshal :: "field list \<Rightarrow> connection \<Rightarrow> json_object" where
  "json_Marshal fs c = map (\<lambda>(name, rd, wr). (name, rd c)) (exported_fields fs)"

text \<open>
  Decoding walks the members of the object; a member whose key is the name of an
  exported field is stored in it, every other member is skipped.
\<close>

fun json_Unmarshal :: "field list \<Rightarrow> json_object \<Rightarrow> connection \<Rightarrow> error + connection" where
  "json_Unmarshal fs [] c = Inr c"
| "json_Unmarshal fs ((k, v) # members) c =
     (case map_of (exported_fields fs) k of
        None \<Rightarrow> json_Unmarshal fs members c
      | Some (rd, wr) \<Rightarrow>
          (case wr v c of
             None \<Rightarrow> Inl (JSONError k)
           | Some c' \<Rightarrow> json_Unmarshal fs members c'))"

definition MarshalJSON :: "connection \<Rightarrow> error + json_object" where
  "MarshalJSON c = Inr (json_Marshal connection_fields c)"

definition UnmarshalJSON :: "connection \<Rightarrow> json_object \<Rightarrow> error + connection" where
  "UnmarshalJSON c b =
     (case json_Unmarshal connection_fields b c of
        Inl err \<Rightarrow> Inl (maskAny err)
      | Inr c' \<Rightarrow> Inr c')"

section \<open>The collaborators\<close>

text \<open>
  The storage collection belongs to another repository. The service uses six of its
  operations; they are taken as a parameter, over any type \<open>'st\<close> of storage states.
  An operation that writes returns its error, if any, and the state it leaves behind.
\<close>

record 'st storage_service =
  Get :: "'st \<Rightarrow> string \<Rightarrow> storage_error + json_object"
  Set' :: "'st \<Rightarrow> string \<Rightarrow> json_object \<Rightarrow> storage_error option \<times> 'st"
  Remove :: "'st \<Rightarrow> string \<Rightarrow> storage_error option \<times> 'st"
  PushToSet :: "'st \<Rightarrow> string \<Rightarrow> string \<Rightarrow> storage_error option \<times> 'st"
  RemoveFromSet :: "'st \<Rightarrow> string \<Rightarrow> string \<Rightarrow> storage_error option \<times> 'st"
  GetAllFromSet :: "'st \<Rightarrow> string \<Rightarrow> storage_error + string list"

text \<open>
  Modelled from the spec: the worker service's \<^verbatim>\<open>Execute\<close>, which belongs to another
  repository. Section 6 of the specification: it runs all the actions and returns the
  first error met among them, or none. Each action of this package issues one storage
  operation, so a run of two actions on two workers is one of the two orders; the
  order is the worker's choice.
\<close>

datatype worker = InOrder | Reversed

fun run_actions :: "('w \<Rightarrow> error option \<times> 'w) list \<Rightarrow> 'w \<Rightarrow> error option \<times> 'w" where
  "run_actions [] w = (None, w)"
| "run_actions (action # actions) w =
     (case action w of
        (err, w') \<Rightarrow>
          (case run_actions actions w' of
             (err', w'') \<Rightarrow> (case err of None \<Rightarrow> err' | Some e \<Rightarrow> Some e, w'')))"

definition Execute ::
  "worker \<Rightarrow> ('w \<Rightarrow> error option \<times> 'w) list \<Rightarrow> 'w \<Rightarrow> error option \<times> 'w" where
  "Execute wk actions w =
     run_actions (case wk of InOrder \<Rightarrow> actions | Reversed \<Rightarrow> rev actions) w"

section \<open>The connection service\<close>

record 'st service =
  storage :: "'st storage_service"
  worker :: worker
  service_weight :: real

definition service_Weight :: "'st service \<Rightarrow> real" where
  "service_Weight s = service_weight s"

text \<open>The two keys, as \<^verbatim>\<open>fmt.Sprintf\<close> builds them.\<close>

definition connectionID :: "string \<Rightarrow> string \<Rightarrow> string \<Rightarrow> string \<Rightarrow> string" where
  "connectionID namespaceA namespaceB peerA peerB =
     namespaceA @ '':'' @ namespaceB @ '':'' @ peerA @ '':'' @ peerB"

definition listID :: "string \<Rightarrow> string \<Rightarrow> string \<Rightarrow> string" where
  "listID namespaceA namespaceB peerA =
     namespaceA @ '':'' @ namespaceB @ '':'' @ peerA"

text \<open>
  Every operation takes the storage state \<open>st\<close>; those that build a connection take the
  clock reading \<open>now\<close> as well.
\<close>

definition Search ::
  "'st service \<Rightarrow> time \<Rightarrow> 'st \<Rightarrow> string \<Rightarrow> string \<Rightarrow> string \<Rightarrow> string \<Rightarrow> error + connection" where
  "Search s now st namespaceA namespaceB peerA peerB =
     (let cid = connectionID namespaceA namespaceB peerA peerB in
      case Get (storage s) st cid of
        Inl err \<Rightarrow>
          if storageerror_IsNotFound err then Inl (maskAnyf notFoundError cid)
          else Inl (maskAny (Storage err))
      | Inr result \<Rightarrow>
          (case New (DefaultConfig now) of
             Inl err \<Rightarrow> Inl (maskAny err)
           | Inr newConnection \<Rightarrow>
               (case UnmarshalJSON newConnection result of
                  Inl err \<Rightarrow> Inl (maskAny err)
                | Inr c \<Rightarrow> Inr c)))"

text \<open>
  \<^verbatim>\<open>Exists\<close> calls \<^verbatim>\<open>Search\<close> and branches on what it returned; \<open>Exists_on\<close> is that
  branching, as a function of the returned pair.
\<close>

definition Exists_on :: "error + connection \<Rightarrow> error + bool" where
  "Exists_on found =
     (case found of
        Inl err \<Rightarrow> if IsNotFound err then Inr False else Inl (maskAny err)
      | Inr c \<Rightarrow> Inr True)"

definition Exists ::
  "'st service \<Rightarrow> time \<Rightarrow> 'st \<Rightarrow> string \<Rightarrow> string \<Rightarrow> string \<Rightarrow> string \<Rightarrow> error + bool" where
  "Exists s now st namespaceA namespaceB peerA peerB =
     Exists_on (Search s now st namespaceA namespaceB peerA peerB)"

definition SearchPeers ::
  "'st service \<Rightarrow> 'st \<Rightarrow> string \<Rightarrow> string \<Rightarrow> string \<Rightarrow> error + string list" where
  "SearchPeers s st namespaceA namespaceB peerA =
     (let lid = listID namespaceA namespaceB peerA in
      case GetAllFromSet (storage s) st lid of
        Inl err \<Rightarrow> Inl (maskAny (Storage err))
      | Inr result \<Rightarrow>
          if length result = 0 then Inl (maskAnyf notFoundError lid) else Inr result)"

text \<open>
  The actions of \<^verbatim>\<open>Create\<close> are closures over the storage and over the variable
  \<^verbatim>\<open>connection\<close> of the enclosing call, which the second one assigns. They act on the
  pair of the storage state and that variable (\<open>None\<close> for \<^verbatim>\<open>nil\<close>).
\<close>

definition Create_action_I ::
  "'st service \<Rightarrow> string \<Rightarrow> string \<Rightarrow> string \<Rightarrow> string \<Rightarrow>
   'st \<times> connection option \<Rightarrow> error option \<times> 'st \<times> connection option" where
  "Create_action_I s namespaceA namespaceB peerA peerB = (\<lambda>(st, conn).
     case PushToSet (storage s) st (listID namespaceA namespaceB peerA) peerB of
       (Some err, st') \<Rightarrow> (Some (maskAny (Storage err)), st', conn)
     | (None, st') \<Rightarrow> (None, st', conn))"

definition Create_action_II ::
  "'st service \<Rightarrow> time \<Rightarrow> string \<Rightarrow> string \<Rightarrow> string \<Rightarrow> string \<Rightarrow>
   'st \<times> connection option \<Rightarrow> error option \<times> 'st \<times> connection option" where
  "Create_action_II s now namespaceA namespaceB peerA peerB = (\<lambda>(st, conn).
     let cid = connectionID namespaceA namespaceB peerA peerB;
         connectionConfig = (DefaultConfig now)
           \<lparr>ID := cid, PeerAID := peerA, PeerBID := peerB, Weight := service_Weight s\<rparr>
     in case New connectionConfig of
          Inl err \<Rightarrow> (Some (maskAny err), st, conn)
        | Inr newConnection \<Rightarrow>
            (case MarshalJSON newConnection of
               Inl err \<Rightarrow> (Some (maskAny err), st, Some newConnection)
             | Inr b \<Rightarrow>
                 (case Set' (storage s) st cid b of
                    (Some err, st') \<Rightarrow> (Some (maskAny (Storage err)), st', Some newConnection)
                  | (None, st') \<Rightarrow> (None, st', Some newConnection))))"

definition Create ::
  "'st service \<Rightarrow> time \<Rightarrow> 'st \<Rightarrow> string \<Rightarrow> string \<Rightarrow> string \<Rightarrow> string \<Rightarrow>
   (error + connection option) \<times> 'st" where
  "Create s now st namespaceA namespaceB peerA peerB =
     (case Search s now st namespaceA namespaceB peerA peerB of
        Inr c \<Rightarrow> (Inr (Some c), st)
      | Inl err \<Rightarrow>
          if \<not> IsNotFound err then (Inl (maskAny err), st)
          else
            (case Execute (worker s)
                    [Create_action_I s namespaceA namespaceB peerA peerB,
                     Create_action_II s now namespaceA namespaceB peerA peerB]
                    (st, None) of
               (Some e, st', conn) \<Rightarrow> (Inl (maskAny e), st')
             | (None, st', conn) \<Rightarrow> (Inr conn, st')))"

definition Delete_action_I ::
  "'st service \<Rightarrow> string \<Rightarrow> string \<Rightarrow> string \<Rightarrow> string \<Rightarrow> 'st \<Rightarrow> error option \<times> 'st" where
  "Delete_action_I s namespaceA namespaceB peerA peerB = (\<lambda>st.
     case RemoveFromSet (storage s) st (listID namespaceA namespaceB peerA) peerB of
       (Some err, st') \<Rightarrow> (Some (maskAny (Storage err)), st')
     | (None, st') \<Rightarrow> (None, st'))"

definition Delete_action_II ::
  "'st service \<Rightarrow> string \<Rightarrow> string \<Rightarrow> string \<Rightarrow> string \<Rightarrow> 'st \<Rightarrow> error option \<times> 'st" where
  "Delete_action_II s namespaceA namespaceB peerA peerB = (\<lambda>st.
     case Remove (storage s) st (connectionID namespaceA namespaceB peerA peerB) of
       (Some err, st') \<Rightarrow> (Some (maskAny (Storage err)), st')
     | (None, st') \<Rightarrow> (None, st'))"

definition Delete ::
  "'st service \<Rightarrow> time \<Rightarrow> 'st \<Rightarrow> string \<Rightarrow> string \<Rightarrow> string \<Rightarrow> string \<Rightarrow> error option \<times> 'st" where
  "Delete s now st namespaceA namespaceB peerA peerB =
     (case Exists s now st namespaceA namespaceB peerA peerB of
        Inl err \<Rightarrow> (Some (maskAny err), st)
      | Inr ok \<Rightarrow>
          if \<not> ok then (None, st)
          else
            (case Execute (worker s)
                    [Delete_action_I s namespaceA namespaceB peerA peerB,
                     Delete_action_II s namespaceA namespaceB peerA peerB]
                    st of
               (Some e, st') \<Rightarrow> (Some (maskAny e), st')
             | (None, st') \<Rightarrow> (None, st')))"

section \<open>An in-memory storage\<close>

text \<open>
  Modelled from the spec: an instance of the storage collaborator, after section 6 of
  the specification. \<^verbatim>\<open>get\<close> fails with not-found on an absent key, removing an absent
  key is no error, and the members of an absent set are the empty collection. It is
  used to run the service on concrete inputs.
\<close>

record mem =
  records :: "(string \<times> json_object) list"
  sets :: "(string \<times> string list) list"

definition members :: "mem \<Rightarrow> string \<Rightarrow> string list" where
  "members st k = (case map_of (sets st) k of None \<Rightarrow> [] | Some ms \<Rightarrow> ms)"

definition mem_storage :: "mem storage_service" where
  "mem_storage =
     \<lparr>Get = (\<lambda>st k. case map_of (records st) k of
                       None \<Rightarrow> Inl StorageNotFound | Some v \<Rightarrow> Inr v),
      Set' = (\<lambda>st k v.
                (None, st\<lparr>records := (k, v) # filter (\<lambda>(k', v'). k' \<noteq> k) (records st)\<rparr>)),
      Remove = (\<lambda>st k.
                (None, st\<lparr>records := filter (\<lambda>(k', v'). k' \<noteq> k) (records st)\<rparr>)),
      PushToSet = (\<lambda>st k m.
                (None, if m \<in> set (members st k) then st
                       else st\<lparr>sets := (k, members st k @ [m]) #
                                        filter (\<lambda>(k', ms). k' \<noteq> k) (sets st)\<rparr>)),
      RemoveFromSet = (\<lambda>st k m.
                (None, st\<lparr>sets := (k, filter (\<lambda>m'. m' \<noteq> m) (members st k)) #
                                   filter (\<lambda>(k', ms). k' \<noteq> k) (sets st)\<rparr>)),
      GetAllFromSet = (\<lambda>st k. Inr (members st k))\<rparr>"

definition empty_mem :: mem where
  "empty_mem = \<lparr>records = [], sets = []\<rparr>"

text \<open>A storage whose every operation fails with an error other than not-found.\<close>

definition failing_storage :: "mem storage_service" where
  "failing_storage =
     \<lparr>Get = (\<lambda>st k. Inl (StorageFailure ''unavailable'')),
      Set' = (\<lambda>st k v. (Some (StorageFailure ''unavailable''), st)),
      Remove = (\<lambda>st k. (Some (StorageFailure ''unavailable''), st)),
      PushToSet = (\<lambda>st k m. (Some (StorageFailure ''unavailable''), st)),
      RemoveFromSet = (\<lambda>st k m. (Some (StorageFailure ''unavailable''), st)),
      GetAllFromSet = (\<lambda>st k. Inl (StorageFailure ''unavailable''))\<rparr>"

text \<open>
  The scenario of section 8 of the specification: a service of weight one half, on
  either order of the worker, and two clock readings.
\<close>

definition example_service :: "worker \<Rightarrow> mem service" where
  "example_service wk = \<lparr>storage = mem_storage, worker = wk, service_weight = 1 / 2\<rparr>"

definition failing_service :: "mem service" where
  "failing_service = \<lparr>storage = failing_storage, worker = InOrder, service_weight = 1 / 2\<rparr>"

definition t1 :: time where
  "t1 = \<lparr>sec = 63600000000, nsec = 123456789\<rparr>"

definition t2 :: time where
  "t2 = \<lparr>sec = 63600000060, nsec = 5\<rparr>"

definition example_connection :: connection where
  "example_connection =
     \<lparr>created = t1, id' = ''ns1:ns2:peerA:peerB'', peerAID = ''peerA'', peerBID = ''peerB'',
      weight = 1 / 2\<rparr>"

definition other_connection :: connection where
  "other_connection =
     \<lparr>created = t2, id' = ''ns1:ns2:peerC:peerD'', peerAID = ''peerC'', peerBID = ''peerD'',
      weight = 2\<rparr>"

text \<open>The storage after the first \<^verbatim>\<open>Create\<close> of the scenario, and one whose set was emptied.\<close>

definition stored_mem :: mem where
  "stored_mem =
     \<lparr>records = [(''ns1:ns2:peerA:peerB'', [])], sets = [(''ns1:ns2:peerA'', [''peerB''])]\<rparr>"

definition emptied_mem :: mem where
  "emptied_mem = \<lparr>records = [], sets = [(''ns1:ns2:peerA'', [])]\<rparr>"

section \<open>Evaluation and helper facts\<close>

lemmas eval_defs = example_service_def failing_service_def failing_storage_def
  mem_storage_def empty_mem_def members_def stored_mem_def emptied_mem_def
  example_connection_def other_connection_def
  Search_def Exists_def Exists_on_def Create_def Delete_def SearchPeers_def
  Create_action_I_def Create_action_II_def Delete_action_I_def Delete_action_II_def
  Execute_def connectionID_def listID_def New_def DefaultConfig_def maskAny_def maskAnyf_def
  IsNotFound_def storageerror_IsNotFound_def IsZero_def t1_def t2_def service_Weight_def
  MarshalJSON_def UnmarshalJSON_def json_Marshal_def exported_fields_def connection_fields_def
  IsExported_def Let_def

text \<open>No field of the struct is exported, so the encoder writes the empty object and the
  decoder stores nothing, whatever the object holds.\<close>

lemma exported_connection_fields: "exported_fields connection_fields = []"
  by (simp add: exported_fields_def connection_fields_def IsExported_def)

lemma MarshalJSON_empty: "MarshalJSON c = Inr []"
  by (simp add: MarshalJSON_def json_Marshal_def exported_connection_fields)

lemma json_Unmarshal_unchanged: "json_Unmarshal connection_fields b c = Inr c"
  by (induction b) (auto simp: exported_connection_fields)

lemma UnmarshalJSON_unchanged: "UnmarshalJSON c b = Inr c"
  by (simp add: UnmarshalJSON_def json_Unmarshal_unchanged)

text \<open>The default configuration has an empty ID, which \<open>New\<close> refuses; so \<open>Search\<close>
  returns an error on every path, also when the record is there.\<close>

lemma New_DefaultConfig:
  "New (DefaultConfig now) =
     Inl (Masked invalidConfigError
            (if IsZero now then ''created must not be empty'' else ''ID must not be empty''))"
  by (simp add: New_def DefaultConfig_def maskAnyf_def)

lemma Search_hit:
  "Get (storage s) st (connectionID a b p q) = Inr v \<Longrightarrow>
   Search s now st a b p q = New (DefaultConfig now)"
  by (simp add: Search_def New_DefaultConfig maskAny_def)

lemma Search_never_finds: "Search s now st a b p q \<noteq> Inr c"
  by (auto simp: Search_def Let_def maskAny_def New_DefaultConfig split: sum.splits)

text \<open>\<open>Exists\<close> inherits this: a stored record gives the error of \<open>New\<close>, and the
  result is never true. Its two other outcomes follow those of \<open>Search\<close>.\<close>

lemma Exists_hit_is_error:
  "Get (storage s) st (connectionID a b p q) = Inr v \<Longrightarrow>
   Exists s now st a b p q =
     Inl (Masked invalidConfigError
            (if IsZero now then ''created must not be empty'' else ''ID must not be empty''))"
  by (simp add: Exists_def Exists_on_def Search_hit New_DefaultConfig IsNotFound_def maskAny_def)

lemma Exists_never_true: "Exists s now st a b p q \<noteq> Inr True"
  using Search_never_finds [of s now st a b p q]
  by (cases "Search s now st a b p q") (auto simp: Exists_def Exists_on_def)

lemma Exists_not_found_and_errors:
  "(Exists s now st a b p q = Inr False \<longleftrightarrow>
      (\<exists>err. Search s now st a b p q = Inl err \<and> IsNotFound err)) \<and>
   (\<forall>err. Search s now st a b p q = Inl err \<and> \<not> IsNotFound err \<longrightarrow>
      Exists s now st a b p q = Inl err)"
  using Search_never_finds [of s now st a b p q]
  by (cases "Search s now st a b p q") (auto simp: Exists_def Exists_on_def maskAny_def)

lemma Search_absent:
  "Get (storage s) st (connectionID a b p q) = Inl StorageNotFound \<Longrightarrow>
   Search s now st a b p q = Inl (Masked notFoundError (connectionID a b p q))"
  by (simp add: Search_def storageerror_IsNotFound_def maskAnyf_def)

text \<open>When the record is absent, \<open>Create\<close> is the run of its two actions.\<close>

lemma Create_absent:
  "Get (storage s) st (connectionID a b p q) = Inl StorageNotFound \<Longrightarrow>
   Create s now st a b p q =
     (case Execute (worker s) [Create_action_I s a b p q, Create_action_II s now a b p q]
             (st, None) of
        (Some e, st', conn) \<Rightarrow> (Inl e, st')
      | (None, st', conn) \<Rightarrow> (Inr conn, st'))"
  by (simp add: Create_def Search_absent IsNotFound_def maskAny_def
           split: prod.splits option.splits)

lemma Create_action_I_run:
  "Create_action_I s a b p q (st, conn) =
     (map_option Storage (fst (PushToSet (storage s) st (listID a b p) q)),
      snd (PushToSet (storage s) st (listID a b p) q), conn)"
  by (auto simp: Create_action_I_def maskAny_def split: prod.splits option.splits)



lemma Create_action_II_empty_peer:
  "p = '''' \<or> q = '''' \<Longrightarrow>
   \<exists>m. Create_action_II s now a b p q w = (Some (Masked invalidConfigError m), w)"
  by (cases w)
     (auto simp: Create_action_II_def New_def DefaultConfig_def Let_def maskAny_def maskAnyf_def)

section \<open>Search\<close>

text \<open>
  Claim C1: for every 4-tuple whose record key is present in the storage, \<open>Search\<close>
  returns, without error, a connection decoded from the stored record.

  The code does not: \<open>Search\<close> builds the connection to decode into with
  \<open>New (DefaultConfig now)\<close>, which \<open>New\<close> refuses for its empty ID (lemma
  \<open>Search_hit\<close>). At the record that \<open>Create\<close> stored for the scenario's tuple, the
  storage returns the record and \<open>Search\<close> returns an invalid-configuration error.
\<close>

theorem Search_stored_record_fails:
  "Get (storage (example_service InOrder)) stored_mem
       (connectionID ''ns1'' ''ns2'' ''peerA'' ''peerB'') = Inr [] \<and>
   Search (example_service InOrder) t2 stored_mem ''ns1'' ''ns2'' ''peerA'' ''peerB'' =
     Inl (Masked invalidConfigError ''ID must not be empty'')"
  by (simp add: eval_defs)

text \<open>
  Claim C7: for every 4-tuple whose record key is absent from the storage, \<open>Search\<close>
  fails with a not-found error that names the composite key
  \<open>namespaceA:namespaceB:peerAID:peerBID\<close>; a storage error other than not-found is
  passed on.
\<close>

theorem Search_absent_NotFound:
  "(Get (storage s) st (a @ '':'' @ b @ '':'' @ p @ '':'' @ q) = Inl StorageNotFound \<longrightarrow>
      Search s now st a b p q =
        Inl (Masked notFoundError (a @ '':'' @ b @ '':'' @ p @ '':'' @ q)) \<and>
      IsNotFound (Masked notFoundError (a @ '':'' @ b @ '':'' @ p @ '':'' @ q))) \<and>
   (\<forall>err. Get (storage s) st (a @ '':'' @ b @ '':'' @ p @ '':'' @ q) = Inl err \<and>
          \<not> storageerror_IsNotFound err \<longrightarrow>
      Search s now st a b p q = Inl (Storage err))"
  by (simp add: Search_def connectionID_def storageerror_IsNotFound_def maskAny_def
        maskAnyf_def IsNotFound_def)

theorem Search_absent_NotFound_witness:
  "Get mem_storage empty_mem ''ns1:ns2:peerA:peerB'' = Inl StorageNotFound \<and>
   Search (example_service InOrder) t1 empty_mem ''ns1'' ''ns2'' ''peerA'' ''peerB'' =
     Inl (Masked notFoundError ''ns1:ns2:peerA:peerB'') \<and>
   Get failing_storage empty_mem ''ns1:ns2:peerA:peerB'' = Inl (StorageFailure ''unavailable'') \<and>
   \<not> storageerror_IsNotFound (StorageFailure ''unavailable'') \<and>
   Search failing_service t1 empty_mem ''ns1'' ''ns2'' ''peerA'' ''peerB'' =
     Inl (Storage (StorageFailure ''unavailable''))"
proof -
  have g1: "Get (storage (example_service InOrder)) empty_mem
              (''ns1'' @ '':'' @ ''ns2'' @ '':'' @ ''peerA'' @ '':'' @ ''peerB'') =
            Inl StorageNotFound"
    by (simp add: example_service_def mem_storage_def empty_mem_def)
  have g2: "Get (storage failing_service) empty_mem
              (''ns1'' @ '':'' @ ''ns2'' @ '':'' @ ''peerA'' @ '':'' @ ''peerB'') =
            Inl (StorageFailure ''unavailable'')"
    by (simp add: failing_service_def failing_storage_def)
  have n: "\<not> storageerror_IsNotFound (StorageFailure ''unavailable'')"
    by (simp add: storageerror_IsNotFound_def)
  from Search_absent_NotFound [of "example_service InOrder" empty_mem
         "''ns1''" "''ns2''" "''peerA''" "''peerB''" t1] g1
  have s1: "Search (example_service InOrder) t1 empty_mem ''ns1'' ''ns2'' ''peerA'' ''peerB'' =
              Inl (Masked notFoundError ''ns1:ns2:peerA:peerB'')"
    by simp
  from Search_absent_NotFound [of failing_service empty_mem
         "''ns1''" "''ns2''" "''peerA''" "''peerB''" t1] g2 n
  have s2: "Search failing_service t1 empty_mem ''ns1'' ''ns2'' ''peerA'' ''peerB'' =
              Inl (Storage (StorageFailure ''unavailable''))"
    by blast
  from g1 g2 n s1 s2 show ?thesis
    by (simp add: example_service_def failing_service_def)
qed

text \<open>
  Claim C8: for every triple, \<open>SearchPeers\<close> fails with a not-found error naming the
  adjacency key \<open>namespaceA:namespaceB:peerAID\<close> whenever the collection of members that
  the storage returns is empty, be the set empty or never created; otherwise it
  returns the members.
\<close>

theorem SearchPeers_empty_NotFound:
  "GetAllFromSet (storage s) st (a @ '':'' @ b @ '':'' @ p) = Inr ms \<Longrightarrow>
   SearchPeers s st a b p =
     (if ms = [] then Inl (Masked notFoundError (a @ '':'' @ b @ '':'' @ p)) else Inr ms)"
  by (simp add: SearchPeers_def listID_def maskAnyf_def)

theorem SearchPeers_empty_NotFound_witness:
  "SearchPeers (example_service InOrder) empty_mem ''ns1'' ''ns2'' ''peerA'' =
     Inl (Masked notFoundError ''ns1:ns2:peerA'') \<and>
   SearchPeers (example_service InOrder) emptied_mem ''ns1'' ''ns2'' ''peerA'' =
     Inl (Masked notFoundError ''ns1:ns2:peerA'') \<and>
   SearchPeers (example_service InOrder) stored_mem ''ns1'' ''ns2'' ''peerA'' = Inr [''peerB'']"
proof -
  have g1: "GetAllFromSet (storage (example_service InOrder)) empty_mem
              (''ns1'' @ '':'' @ ''ns2'' @ '':'' @ ''peerA'') = Inr []"
    by (simp add: example_service_def mem_storage_def empty_mem_def members_def)
  have g2: "GetAllFromSet (storage (example_service InOrder)) emptied_mem
              (''ns1'' @ '':'' @ ''ns2'' @ '':'' @ ''peerA'') = Inr []"
    by (simp add: example_service_def mem_storage_def emptied_mem_def members_def)
  have g3: "GetAllFromSet (storage (example_service InOrder)) stored_mem
              (''ns1'' @ '':'' @ ''ns2'' @ '':'' @ ''peerA'') = Inr [''peerB'']"
    by (simp add: example_service_def mem_storage_def stored_mem_def members_def)
  from SearchPeers_empty_NotFound [OF g1] SearchPeers_empty_NotFound [OF g2]
    SearchPeers_empty_NotFound [OF g3]
  show ?thesis by simp
qed

section \<open>Exists and Delete\<close>


text \<open>
  Claim C5: for every 4-tuple on which \<open>Exists\<close> reports false, \<open>Delete\<close> returns success
  with no error and changes nothing in the storage: the state it leaves is the state
  it was given, on any storage, so neither removal is issued.
\<close>

theorem Delete_absent_is_noop:
  "Exists s now st a b p q = Inr False \<Longrightarrow> Delete s now st a b p q = (None, st)"
  by (simp add: Delete_def)

theorem Delete_absent_is_noop_witness:
  "Exists (example_service InOrder) t2 stored_mem ''ns1'' ''ns2'' ''peerA'' ''peerC'' = Inr False \<and>
   Delete (example_service InOrder) t2 stored_mem ''ns1'' ''ns2'' ''peerA'' ''peerC'' =
     (None, stored_mem)"
proof -
  have e: "Exists (example_service InOrder) t2 stored_mem ''ns1'' ''ns2'' ''peerA'' ''peerC'' =
             Inr False"
    by (simp add: eval_defs)
  from Delete_absent_is_noop [OF e] e show ?thesis
    by simp
qed

section \<open>Create\<close>

text \<open>
  Claim C2: for every 4-tuple, a second \<open>Create\<close> after a successful \<open>Create\<close> with the
  same arguments returns, without error, a connection with the same id, peer ids and
  weight, and writes nothing more to the record store or the adjacency set.

  The code does not return the connection: the first call succeeds and stores the
  record, and the second call, on the storage the first one left, stops at the error
  of its \<open>Search\<close> (the state is unchanged, so nothing more is written).
\<close>

theorem Create_twice_fails:
  "Create (example_service InOrder) t1 empty_mem ''ns1'' ''ns2'' ''peerA'' ''peerB'' =
     (Inr (Some example_connection), stored_mem) \<and>
   Create (example_service InOrder) t2 stored_mem ''ns1'' ''ns2'' ''peerA'' ''peerB'' =
     (Inl (Masked invalidConfigError ''ID must not be empty''), stored_mem)"
  by (simp add: eval_defs)



text \<open>
  Claim C10: for every call of \<open>Create\<close> in which \<open>peerAID\<close> or \<open>peerBID\<close> is the empty
  string and the record key is absent from the storage, \<open>Create\<close> returns an error:
  building the connection inside the record-writing action fails the validation of
  \<open>New\<close>. No record is written for such a call: the action leaves the state as it
  found it, and the state that \<open>Create\<close> leaves is the one left by the adjacency
  action's \<open>PushToSet\<close> alone, on any storage and either order of the worker.
\<close>

theorem Create_empty_peer_fails:
  assumes "p = '''' \<or> q = ''''"
    and "Get (storage s) st (connectionID a b p q) = Inl StorageNotFound"
  shows "(\<exists>m. Create_action_II s now a b p q (st, None) =
                (Some (Masked invalidConfigError m), st, None)) \<and>
         (\<exists>err. Create s now st a b p q =
                  (Inl err, snd (PushToSet (storage s) st (listID a b p) q)))"
proof -
  have II: "\<exists>m. Create_action_II s now a b p q w = (Some (Masked invalidConfigError m), w)"
    for w
    using Create_action_II_empty_peer [OF assms(1)] .
  let ?st' = "snd (PushToSet (storage s) st (listID a b p) q)"
  obtain m where m: "Create_action_II s now a b p q (st, None) =
                       (Some (Masked invalidConfigError m), st, None)"
    using II [of "(st, None)"] by auto
  obtain m' where m': "Create_action_II s now a b p q (?st', None) =
                         (Some (Masked invalidConfigError m'), ?st', None)"
    using II [of "(?st', None)"] by auto
  have "\<exists>err. Execute (worker s)
                [Create_action_I s a b p q, Create_action_II s now a b p q] (st, None) =
              (Some err, ?st', None)"
    by (cases "worker s")
       (auto simp: Execute_def Create_action_I_run m m' split: option.splits)
  then show ?thesis
    using m assms(2) by (auto simp: Create_absent)
qed

theorem Create_empty_peer_fails_witness:
  "('''' = '''' \<or> ''peerB'' = '''') \<and>
   Get (storage (example_service InOrder)) empty_mem
       (connectionID ''ns1'' ''ns2'' '''' ''peerB'') = Inl StorageNotFound \<and>
   (\<exists>err. Create (example_service InOrder) t1 empty_mem ''ns1'' ''ns2'' '''' ''peerB'' =
            (Inl err, \<lparr>records = [], sets = [(''ns1:ns2:'', [''peerB''])]\<rparr>))"
proof -
  have h: "'''' = '''' \<or> ''peerB'' = ''''"
    by simp
  have g: "Get (storage (example_service InOrder)) empty_mem
             (connectionID ''ns1'' ''ns2'' '''' ''peerB'') = Inl StorageNotFound"
    by (simp add: example_service_def mem_storage_def empty_mem_def connectionID_def)
  have st: "snd (PushToSet (storage (example_service InOrder)) empty_mem
                   (listID ''ns1'' ''ns2'' '''') ''peerB'') =
            \<lparr>records = [], sets = [(''ns1:ns2:'', [''peerB''])]\<rparr>"
    by (simp add: example_service_def mem_storage_def empty_mem_def members_def listID_def)
  from Create_empty_peer_fails [OF h g, of t1] have
    "\<exists>err. Create (example_service InOrder) t1 empty_mem ''ns1'' ''ns2'' '''' ''peerB'' =
            (Inl err, snd (PushToSet (storage (example_service InOrder)) empty_mem
                             (listID ''ns1'' ''ns2'' '''') ''peerB''))"
    by blast
  with g st show ?thesis
    by simp
qed

section \<open>The entity: construction and encoding\<close>

text \<open>
  Claim C9: for every configuration, building a connection fails with an
  invalid-configuration error naming the missing field whenever the created time is
  its zero value or the id, \<open>peerAID\<close> or \<open>peerBID\<close> is the empty string (the first
  missing one, in the order of the checks); a weight of zero is accepted, and the
  construction succeeds whenever the four other requirements hold.
\<close>

theorem New_contract:
  "(IsZero (Created config) \<longrightarrow>
      New config = Inl (Masked invalidConfigError ''created must not be empty'')) \<and>
   (\<not> IsZero (Created config) \<and> ID config = '''' \<longrightarrow>
      New config = Inl (Masked invalidConfigError ''ID must not be empty'')) \<and>
   (\<not> IsZero (Created config) \<and> ID config \<noteq> '''' \<and> PeerAID config = '''' \<longrightarrow>
      New config = Inl (Masked invalidConfigError ''peerA ID must not be empty'')) \<and>
   (\<not> IsZero (Created config) \<and> ID config \<noteq> '''' \<and> PeerAID config \<noteq> '''' \<and>
    PeerBID config = '''' \<longrightarrow>
      New config = Inl (Masked invalidConfigError ''peerB ID must not be empty'')) \<and>
   (\<not> IsZero (Created config) \<and> ID config \<noteq> '''' \<and> PeerAID config \<noteq> '''' \<and>
    PeerBID config \<noteq> '''' \<longrightarrow>
      New config = Inr \<lparr>created = Created config, id' = ID config, peerAID = PeerAID config,
                        peerBID = PeerBID config, weight = Weight config\<rparr>)"
  by (simp add: New_def maskAnyf_def)

theorem New_contract_witness:
  "New \<lparr>Created = \<lparr>sec = 0, nsec = 0\<rparr>, ID = ''i'', PeerAID = ''a'', PeerBID = ''b'', Weight = 1\<rparr> =
     Inl (Masked invalidConfigError ''created must not be empty'') \<and>
   New \<lparr>Created = t1, ID = '''', PeerAID = ''a'', PeerBID = ''b'', Weight = 1\<rparr> =
     Inl (Masked invalidConfigError ''ID must not be empty'') \<and>
   New \<lparr>Created = t1, ID = ''i'', PeerAID = '''', PeerBID = ''b'', Weight = 1\<rparr> =
     Inl (Masked invalidConfigError ''peerA ID must not be empty'') \<and>
   New \<lparr>Created = t1, ID = ''i'', PeerAID = ''a'', PeerBID = '''', Weight = 1\<rparr> =
     Inl (Masked invalidConfigError ''peerB ID must not be empty'') \<and>
   New \<lparr>Created = t1, ID = ''i'', PeerAID = ''a'', PeerBID = ''b'', Weight = 0\<rparr> =
     Inr \<lparr>created = t1, id' = ''i'', peerAID = ''a'', peerBID = ''b'', weight = 0\<rparr>"
proof -
  have z: "IsZero \<lparr>sec = 0, nsec = 0\<rparr>" and nz: "\<not> IsZero t1"
    by (simp_all add: IsZero_def t1_def)
  from New_contract
         [of "\<lparr>Created = \<lparr>sec = 0, nsec = 0\<rparr>, ID = ''i'', PeerAID = ''a'', PeerBID = ''b'',
               Weight = 1\<rparr>"] z
  have c1: "New \<lparr>Created = \<lparr>sec = 0, nsec = 0\<rparr>, ID = ''i'', PeerAID = ''a'', PeerBID = ''b'',
                 Weight = 1\<rparr> =
              Inl (Masked invalidConfigError ''created must not be empty'')"
    by simp
  from New_contract [of "\<lparr>Created = t1, ID = '''', PeerAID = ''a'', PeerBID = ''b'', Weight = 1\<rparr>"] nz
  have c2: "New \<lparr>Created = t1, ID = '''', PeerAID = ''a'', PeerBID = ''b'', Weight = 1\<rparr> =
              Inl (Masked invalidConfigError ''ID must not be empty'')"
    by simp
  from New_contract [of "\<lparr>Created = t1, ID = ''i'', PeerAID = '''', PeerBID = ''b'', Weight = 1\<rparr>"] nz
  have c3: "New \<lparr>Created = t1, ID = ''i'', PeerAID = '''', PeerBID = ''b'', Weight = 1\<rparr> =
              Inl (Masked invalidConfigError ''peerA ID must not be empty'')"
    by simp
  from New_contract [of "\<lparr>Created = t1, ID = ''i'', PeerAID = ''a'', PeerBID = '''', Weight = 1\<rparr>"] nz
  have c4: "New \<lparr>Created = t1, ID = ''i'', PeerAID = ''a'', PeerBID = '''', Weight = 1\<rparr> =
              Inl (Masked invalidConfigError ''peerB ID must not be empty'')"
    by simp
  from New_contract [of "\<lparr>Created = t1, ID = ''i'', PeerAID = ''a'', PeerBID = ''b'', Weight = 0\<rparr>"] nz
  have c5: "New \<lparr>Created = t1, ID = ''i'', PeerAID = ''a'', PeerBID = ''b'', Weight = 0\<rparr> =
              Inr \<lparr>created = t1, id' = ''i'', peerAID = ''a'', peerBID = ''b'', weight = 0\<rparr>"
    by simp
  from c1 c2 c3 c4 c5 show ?thesis
    by blast
qed

text \<open>
  Claim C3: for every connection, encoding it and decoding the result reproduces every
  field exactly.

  The code does not: the fields of the struct are unexported, so the encoder writes
  the empty object for every connection (lemma \<open>MarshalJSON_empty\<close>) and the decoder
  leaves the connection it decodes into as it was (lemma \<open>UnmarshalJSON_unchanged\<close>).
  Decoding the encoding of the scenario's connection into another connection gives
  that other connection, with none of the encoded fields.
\<close>

theorem encode_decode_loses_fields:
  "MarshalJSON example_connection = Inr [] \<and>
   UnmarshalJSON other_connection [] = Inr other_connection \<and>
   created other_connection \<noteq> created example_connection \<and>
   id' other_connection \<noteq> id' example_connection \<and>
   peerAID other_connection \<noteq> peerAID example_connection \<and>
   peerBID other_connection \<noteq> peerBID example_connection \<and>
   weight other_connection \<noteq> weight example_connection"
  by (simp add: eval_defs)

end
